theory Spec2Isabelle
  imports Main
begin

section \<open>Data model\<close>

text \<open>
  The \<open>Todo\<close> row as the handlers build and return it (\<open>update_todo.ts\<close>, lines 7-14):
  \<open>id\<close>, \<open>title\<close>, \<open>description\<close> (a string or \<open>null\<close>), \<open>completed\<close>, \<open>created_at\<close>,
  \<open>updated_at\<close>. The field \<open>id\<close> is written \<open>id_todo\<close>, since \<open>id\<close> is the identity
  function of HOL. A JavaScript \<open>Date\<close> is its number of milliseconds since the epoch;
  \<open>null\<close> is \<open>None\<close>.
\<close>

record todo =
  id_todo :: int
  title :: string
  description :: "string option"
  completed :: bool
  created_at :: int
  updated_at :: int

text \<open>
  An optional property of an input object (\<open>title?: string\<close>): either it is
  \<open>undefined\<close> or it carries a value. The property \<open>description?: string | null\<close> is
  a \<open>string option optional\<close>, so "not sent" (\<open>Undefined\<close>), "sent as null"
  (\<open>Defined None\<close>) and "sent as a string" are three different inputs.
\<close>

datatype 'a optional = Undefined | Defined 'a

text \<open>\<open>UpdateTodoInput\<close>, \<open>DeleteTodoInput\<close> and \<open>CreateTodoInput\<close>; the field names
  carry a suffix that tells the three records apart.\<close>

record update_todo_input =
  id_upd :: int
  title_upd :: "string optional"
  description_upd :: "string option optional"
  completed_upd :: "bool optional"

record delete_todo_input =
  id_del :: int

record create_todo_input =
  title_new :: string
  description_new :: "string option"

text \<open>The result of \<open>deleteTodo\<close>, declared as \<open>{ success: boolean }\<close>.\<close>

record delete_result =
  success :: bool

text \<open>
  A rejected promise. \<open>NotFound\<close> is the handler's own
  \<open>new Error(`Todo with id ${input.id} not found`)\<close>, and keeps the id that the message
  interpolates. \<open>StoreFault\<close> is an error raised by the store while it runs a statement
  (\<open>value "..." is out of range for type integer\<close>), and keeps the value refused.
\<close>

datatype error = NotFound int | StoreFault int

section \<open>The record store\<close>

text \<open>
  The table \<open>todosTable\<close> behind \<open>db\<close>: its rows in the store's natural order, and the
  next value of the sequence that generates \<open>id\<close>.
\<close>

record db =
  todosTable :: "todo list"
  id_seq :: int

text \<open>\<open>db.select().from(todosTable).execute()\<close>: every row of the table.\<close>

definition db_select :: "db \<Rightarrow> todo list" where
  "db_select s = todosTable s"

text \<open>
  Modelled from the spec: the declaration of the \<open>id\<close> column (\<open>db/schema.ts\<close>, not among
  the sources). Sections 3 and 6: \<open>id\<close> is an integer, the "auto-incrementing primary key"
  of the table; in the store that is a 32-bit signed integer.
\<close>

definition id_in_range :: "int \<Rightarrow> bool" where
  "id_in_range i \<longleftrightarrow> - 2147483648 \<le> i \<and> i \<le> 2147483647"

text \<open>
  \<open>db.delete(todosTable).where(eq(todosTable.id, i)).returning().execute()\<close>: the rows whose
  \<open>id\<close> is \<open>i\<close> leave the table and are returned; the other rows stay, in their order.
  The store compares \<open>i\<close> as a value of the column's type. The ids that the table holds
  are such values; an \<open>i\<close> that is none of them and lies outside the 32-bit range is
  refused with an error, and the statement changes nothing.
\<close>

definition db_delete_returning :: "int \<Rightarrow> db \<Rightarrow> error + todo list \<times> db" where
  "db_delete_returning i s =
     (if id_in_range i \<or> i \<in> id_todo ` set (todosTable s)
      then Inr (filter (\<lambda>r. id_todo r = i) (todosTable s),
                s\<lparr>todosTable := filter (\<lambda>r. id_todo r \<noteq> i) (todosTable s)\<rparr>)
      else Inl (StoreFault i))"

section \<open>Handlers\<close>

text \<open>\<open>getTodos\<close> (\<open>get_todos.ts\<close>): selects all rows and returns them; an error of the
  store would be logged and thrown again, and a select of all rows raises none here.\<close>

definition getTodos :: "db \<Rightarrow> error + todo list" where
  "getTodos s = (let todos = db_select s in Inr todos)"

text \<open>
  \<open>deleteTodo\<close> (\<open>handlers/delete_todo.ts\<close>): deletes by id, returning the deleted rows;
  when no row was deleted it throws, otherwise it returns \<open>{ success: true }\<close>. The
  \<open>catch\<close> block logs the error, the store's or the handler's own, and throws it again.
  The handler's result comes with the store after the call.
\<close>

definition deleteTodo :: "db \<Rightarrow> delete_todo_input \<Rightarrow> (error + delete_result) \<times> db" where
  "deleteTodo s input =
     (case db_delete_returning (id_del input) s of
        Inl e \<Rightarrow> (Inl e, s)
      | Inr (result, s') \<Rightarrow>
          if length result = 0 then (Inl (NotFound (id_del input)), s')
          else (Inr \<lparr>success = True\<rparr>, s'))"

text \<open>JavaScript's \<open>a || b\<close> on an optional string and on an optional boolean: the left
  operand when it is truthy, the right one when it is \<open>undefined\<close>, \<open>""\<close> or \<open>false\<close>.\<close>

fun or_string :: "string optional \<Rightarrow> string \<Rightarrow> string" where
  "or_string Undefined d = d"
| "or_string (Defined v) d = (if v = [] then d else v)"

fun or_bool :: "bool optional \<Rightarrow> bool \<Rightarrow> bool" where
  "or_bool Undefined d = d"
| "or_bool (Defined v) d = (if v then v else d)"

text \<open>
  \<open>updateTodo\<close> (\<open>update_todo.ts\<close>): builds the returned record from the input alone and
  resolves; it makes no call to the store, which is therefore the same after the call.
  \<open>t1\<close> and \<open>t2\<close> are the clock readings of the two \<open>new Date()\<close> expressions.
\<close>

definition updateTodo ::
    "db \<Rightarrow> int \<Rightarrow> int \<Rightarrow> update_todo_input \<Rightarrow> (error + todo) \<times> db" where
  "updateTodo s t1 t2 input =
     (Inr \<lparr>id_todo = id_upd input,
           title = or_string (title_upd input) ''Placeholder title'',
           description = (case description_upd input of
                            Defined d \<Rightarrow> d
                          | Undefined \<Rightarrow> None),
           completed = or_bool (completed_upd input) False,
           created_at = t1,
           updated_at = t2\<rparr>,
      s)"

text \<open>
  Modelled from the spec: \<open>createTodo\<close>, whose file \<open>handlers/create_todo.ts\<close> is not among
  the sources (only its tests are). Section 4.1: it "inserts a new record with
  \<open>completed=false\<close>, store-generated \<open>id\<close>, \<open>created_at\<close>/\<open>updated_at\<close> set to the
  operation's current time" and "returns the full stored record". \<open>now\<close> is the operation's
  current time; the store takes the \<open>id\<close> from its sequence and advances it.
\<close>

definition createTodo :: "db \<Rightarrow> int \<Rightarrow> create_todo_input \<Rightarrow> (error + todo) \<times> db" where
  "createTodo s now input =
     (let r = \<lparr>id_todo = id_seq s,
               title = title_new input,
               description = description_new input,
               completed = False,
               created_at = now,
               updated_at = now\<rparr>
      in (Inr r, s\<lparr>todosTable := todosTable s @ [r], id_seq := id_seq s + 1\<rparr>))"

section \<open>Helper lemmas on the store\<close>

lemma filter_other_ids_unchanged:
  "i \<notin> id_todo ` set rows \<Longrightarrow> filter (\<lambda>r. id_todo r \<noteq> i) rows = rows"
  by (induction rows) auto

lemma filter_this_id_empty:
  "i \<notin> id_todo ` set rows \<Longrightarrow> filter (\<lambda>r. id_todo r = i) rows = []"
  by (induction rows) auto

lemma filter_this_id_nonempty:
  "i \<in> id_todo ` set rows \<Longrightarrow> filter (\<lambda>r. id_todo r = i) rows \<noteq> []"
  by (induction rows) auto

lemma distinct_ids_remove_one:
  "distinct (map id_todo rows) \<Longrightarrow> i \<in> id_todo ` set rows \<Longrightarrow>
   Suc (length (filter (\<lambda>r. id_todo r \<noteq> i) rows)) = length rows"
proof (induction rows)
  case Nil
  then show ?case by simp
next
  case (Cons r rows)
  show ?case
  proof (cases "id_todo r = i")
    case True
    with Cons.prems have "i \<notin> id_todo ` set rows" by auto
    then have "filter (\<lambda>r. id_todo r \<noteq> i) rows = rows"
      by (rule filter_other_ids_unchanged)
    with True show ?thesis by simp
  next
    case False
    with Cons.prems have "distinct (map id_todo rows)" and "i \<in> id_todo ` set rows"
      by auto
    with Cons.IH False show ?thesis by simp
  qed
qed

section \<open>Listing\<close>

text \<open>
  C7. \<open>getTodos\<close> returns exactly the rows of the table, in the table's order: every
  stored record appears and nothing else does. When the table has no rows the result
  is the empty list, a proper result and not an error or an absent value.
\<close>

theorem getTodos_returns_exactly_the_rows:
  "getTodos s = Inr (todosTable s) \<and>
   (\<exists>rs. getTodos s = Inr rs \<and> set rs = set (todosTable s)) \<and>
   (todosTable s = [] \<longrightarrow> getTodos s = Inr [])"
  by (simp add: getTodos_def db_select_def)

theorem getTodos_returns_exactly_the_rows_witness:
  "todosTable \<lparr>todosTable = [], id_seq = 1\<rparr> = [] \<and>
   getTodos \<lparr>todosTable = [], id_seq = 1\<rparr> = Inr []"
  using getTodos_returns_exactly_the_rows [of "\<lparr>todosTable = [], id_seq = 1\<rparr>"]
  by simp

section \<open>Deleting\<close>

text \<open>
  C3. The claim as it stands, with an id that no record has: the store holds the record
  1 and the id is 2147483648, beyond the range of the \<open>id\<close> column. The delete statement
  is refused by the store, and \<open>deleteTodo\<close> throws the store's error again; it is not
  \<open>NotFound\<close>, and no affected-row count was looked at.
\<close>

theorem deleteTodo_missing_id_out_of_range_counterexample:
  "2147483648 \<notin> id_todo ` set (todosTable
      \<lparr>todosTable = [\<lparr>id_todo = 1, title = ''Test Todo'', description = None,
                       completed = False, created_at = 1000, updated_at = 1000\<rparr>],
       id_seq = 2\<rparr>) \<and>
   deleteTodo
      \<lparr>todosTable = [\<lparr>id_todo = 1, title = ''Test Todo'', description = None,
                       completed = False, created_at = 1000, updated_at = 1000\<rparr>],
       id_seq = 2\<rparr>
      \<lparr>id_del = 2147483648\<rparr> =
     (Inl (StoreFault 2147483648),
      \<lparr>todosTable = [\<lparr>id_todo = 1, title = ''Test Todo'', description = None,
                       completed = False, created_at = 1000, updated_at = 1000\<rparr>],
       id_seq = 2\<rparr>) \<and>
   fst (deleteTodo
      \<lparr>todosTable = [\<lparr>id_todo = 1, title = ''Test Todo'', description = None,
                       completed = False, created_at = 1000, updated_at = 1000\<rparr>],
       id_seq = 2\<rparr>
      \<lparr>id_del = 2147483648\<rparr>) \<noteq> Inl (NotFound 2147483648)"
  by (simp add: deleteTodo_def db_delete_returning_def id_in_range_def)

text \<open>
  C3, amended. When no row of the table has the id of the input and the id is within
  the range of the \<open>id\<close> column, the delete statement returns no row (an affected-row
  count of zero), \<open>deleteTodo\<close> fails with \<open>NotFound\<close> for that id, and the store after
  the call is the store before it. When the id is outside the range, \<open>deleteTodo\<close> fails
  with the store's error, and the store is again the store before the call.
\<close>

theorem deleteTodo_missing_id_fails_and_keeps_store:
  assumes "id_del input \<notin> id_todo ` set (todosTable s)"
  shows "(id_in_range (id_del input) \<longrightarrow>
            (\<exists>result. db_delete_returning (id_del input) s = Inr (result, s) \<and>
                      length result = 0) \<and>
            deleteTodo s input = (Inl (NotFound (id_del input)), s)) \<and>
         (\<not> id_in_range (id_del input) \<longrightarrow>
            deleteTodo s input = (Inl (StoreFault (id_del input)), s))"
proof -
  from assms have none: "filter (\<lambda>r. id_todo r = id_del input) (todosTable s) = []"
    by (rule filter_this_id_empty)
  from assms have same: "filter (\<lambda>r. id_todo r \<noteq> id_del input) (todosTable s) = todosTable s"
    by (rule filter_other_ids_unchanged)
  from assms none same show ?thesis
    by (simp add: deleteTodo_def db_delete_returning_def)
qed

theorem deleteTodo_missing_id_fails_and_keeps_store_witness:
  "999 \<notin> id_todo ` set (todosTable
      \<lparr>todosTable = [\<lparr>id_todo = 1, title = ''Test Todo'', description = None,
                       completed = False, created_at = 1000, updated_at = 1000\<rparr>],
       id_seq = 2\<rparr>) \<and>
   id_in_range 999 \<and>
   deleteTodo
      \<lparr>todosTable = [\<lparr>id_todo = 1, title = ''Test Todo'', description = None,
                       completed = False, created_at = 1000, updated_at = 1000\<rparr>],
       id_seq = 2\<rparr>
      \<lparr>id_del = 999\<rparr> =
     (Inl (NotFound 999),
      \<lparr>todosTable = [\<lparr>id_todo = 1, title = ''Test Todo'', description = None,
                       completed = False, created_at = 1000, updated_at = 1000\<rparr>],
       id_seq = 2\<rparr>) \<and>
   - 2147483649 \<notin> id_todo ` set (todosTable
      \<lparr>todosTable = [\<lparr>id_todo = 1, title = ''Test Todo'', description = None,
                       completed = False, created_at = 1000, updated_at = 1000\<rparr>],
       id_seq = 2\<rparr>) \<and>
   \<not> id_in_range (- 2147483649) \<and>
   deleteTodo
      \<lparr>todosTable = [\<lparr>id_todo = 1, title = ''Test Todo'', description = None,
                       completed = False, created_at = 1000, updated_at = 1000\<rparr>],
       id_seq = 2\<rparr>
      \<lparr>id_del = - 2147483649\<rparr> =
     (Inl (StoreFault (- 2147483649)),
      \<lparr>todosTable = [\<lparr>id_todo = 1, title = ''Test Todo'', description = None,
                       completed = False, created_at = 1000, updated_at = 1000\<rparr>],
       id_seq = 2\<rparr>)"
  using deleteTodo_missing_id_fails_and_keeps_store
    [of "\<lparr>id_del = 999\<rparr>"
        "\<lparr>todosTable = [\<lparr>id_todo = 1, title = ''Test Todo'', description = None,
                       completed = False, created_at = 1000, updated_at = 1000\<rparr>],
       id_seq = 2\<rparr>"]
    deleteTodo_missing_id_fails_and_keeps_store
    [of "\<lparr>id_del = - 2147483649\<rparr>"
        "\<lparr>todosTable = [\<lparr>id_todo = 1, title = ''Test Todo'', description = None,
                       completed = False, created_at = 1000, updated_at = 1000\<rparr>],
       id_seq = 2\<rparr>"]
  by (simp add: id_in_range_def)

text \<open>
  C8. When some row has the id of the input, \<open>deleteTodo\<close> succeeds and the table
  afterwards is the old table without the rows of that id: every other row is still
  there, with the same fields and in the same order. Where ids are unique (\<open>id\<close> is the
  primary key) exactly one row has gone. A \<open>getTodos\<close> on the resulting store returns no
  record with the deleted id.
\<close>

theorem deleteTodo_existing_id_removes_only_that_row:
  assumes "id_del input \<in> id_todo ` set (todosTable s)"
  shows "\<exists>s'. deleteTodo s input = (Inr \<lparr>success = True\<rparr>, s') \<and>
           todosTable s' = filter (\<lambda>r. id_todo r \<noteq> id_del input) (todosTable s) \<and>
           id_seq s' = id_seq s \<and>
           (\<forall>r. id_todo r \<noteq> id_del input \<longrightarrow>
                (r \<in> set (todosTable s') \<longleftrightarrow> r \<in> set (todosTable s))) \<and>
           (distinct (map id_todo (todosTable s)) \<longrightarrow>
              Suc (length (todosTable s')) = length (todosTable s)) \<and>
           (\<exists>rs. getTodos s' = Inr rs \<and> id_del input \<notin> id_todo ` set rs)"
proof -
  let ?s' = "s\<lparr>todosTable := filter (\<lambda>r. id_todo r \<noteq> id_del input) (todosTable s)\<rparr>"
  from assms have some: "filter (\<lambda>r. id_todo r = id_del input) (todosTable s) \<noteq> []"
    by (rule filter_this_id_nonempty)
  with assms have run: "deleteTodo s input = (Inr \<lparr>success = True\<rparr>, ?s')"
    by (simp add: deleteTodo_def db_delete_returning_def)
  have others: "\<forall>r. id_todo r \<noteq> id_del input \<longrightarrow>
                  (r \<in> set (todosTable ?s') \<longleftrightarrow> r \<in> set (todosTable s))"
    by simp
  have one: "distinct (map id_todo (todosTable s)) \<longrightarrow>
               Suc (length (todosTable ?s')) = length (todosTable s)"
    using assms by (simp add: distinct_ids_remove_one)
  have listed: "\<exists>rs. getTodos ?s' = Inr rs \<and> id_del input \<notin> id_todo ` set rs"
    by (auto simp: getTodos_def db_select_def)
  from run others one listed show ?thesis
    by (intro exI [of _ ?s']) simp
qed


theorem deleteTodo_existing_id_removes_only_that_row_witness:
  "2 \<in> id_todo ` set (todosTable \<lparr>todosTable = [\<lparr>id_todo = 1, title = ''Todo 1'', description = Some ''First todo'',
                         completed = False, created_at = 1000, updated_at = 1000\<rparr>,
                        \<lparr>id_todo = 2, title = ''Todo 2'', description = Some ''Second todo'',
                         completed = True, created_at = 1000, updated_at = 1000\<rparr>,
                        \<lparr>id_todo = 3, title = ''Todo 3'', description = Some ''Third todo'',
                         completed = False, created_at = 1000, updated_at = 1000\<rparr>], id_seq = 4\<rparr>) \<and>
   distinct (map id_todo (todosTable \<lparr>todosTable = [\<lparr>id_todo = 1, title = ''Todo 1'', description = Some ''First todo'',
                         completed = False, created_at = 1000, updated_at = 1000\<rparr>,
                        \<lparr>id_todo = 2, title = ''Todo 2'', description = Some ''Second todo'',
                         completed = True, created_at = 1000, updated_at = 1000\<rparr>,
                        \<lparr>id_todo = 3, title = ''Todo 3'', description = Some ''Third todo'',
                         completed = False, created_at = 1000, updated_at = 1000\<rparr>], id_seq = 4\<rparr>)) \<and>
   deleteTodo \<lparr>todosTable = [\<lparr>id_todo = 1, title = ''Todo 1'', description = Some ''First todo'',
                         completed = False, created_at = 1000, updated_at = 1000\<rparr>,
                        \<lparr>id_todo = 2, title = ''Todo 2'', description = Some ''Second todo'',
                         completed = True, created_at = 1000, updated_at = 1000\<rparr>,
                        \<lparr>id_todo = 3, title = ''Todo 3'', description = Some ''Third todo'',
                         completed = False, created_at = 1000, updated_at = 1000\<rparr>], id_seq = 4\<rparr> \<lparr>id_del = 2\<rparr> =
     (Inr \<lparr>success = True\<rparr>, \<lparr>todosTable = [\<lparr>id_todo = 1, title = ''Todo 1'', description = Some ''First todo'',
                         completed = False, created_at = 1000, updated_at = 1000\<rparr>,
                        \<lparr>id_todo = 3, title = ''Todo 3'', description = Some ''Third todo'',
                         completed = False, created_at = 1000, updated_at = 1000\<rparr>], id_seq = 4\<rparr>) \<and>
   getTodos \<lparr>todosTable = [\<lparr>id_todo = 1, title = ''Todo 1'', description = Some ''First todo'',
                         completed = False, created_at = 1000, updated_at = 1000\<rparr>,
                        \<lparr>id_todo = 3, title = ''Todo 3'', description = Some ''Third todo'',
                         completed = False, created_at = 1000, updated_at = 1000\<rparr>], id_seq = 4\<rparr> = Inr [\<lparr>id_todo = 1, title = ''Todo 1'', description = Some ''First todo'',
                         completed = False, created_at = 1000, updated_at = 1000\<rparr>,
                        \<lparr>id_todo = 3, title = ''Todo 3'', description = Some ''Third todo'',
                         completed = False, created_at = 1000, updated_at = 1000\<rparr>] \<and>
   Suc (length [\<lparr>id_todo = 1, title = ''Todo 1'', description = Some ''First todo'',
                         completed = False, created_at = 1000, updated_at = 1000\<rparr>,
                        \<lparr>id_todo = 3, title = ''Todo 3'', description = Some ''Third todo'',
                         completed = False, created_at = 1000, updated_at = 1000\<rparr>]) = length [\<lparr>id_todo = 1, title = ''Todo 1'', description = Some ''First todo'',
                         completed = False, created_at = 1000, updated_at = 1000\<rparr>,
                        \<lparr>id_todo = 2, title = ''Todo 2'', description = Some ''Second todo'',
                         completed = True, created_at = 1000, updated_at = 1000\<rparr>,
                        \<lparr>id_todo = 3, title = ''Todo 3'', description = Some ''Third todo'',
                         completed = False, created_at = 1000, updated_at = 1000\<rparr>]"
proof -
  have present: "2 \<in> id_todo ` set (todosTable \<lparr>todosTable = [\<lparr>id_todo = 1, title = ''Todo 1'', description = Some ''First todo'',
                         completed = False, created_at = 1000, updated_at = 1000\<rparr>,
                        \<lparr>id_todo = 2, title = ''Todo 2'', description = Some ''Second todo'',
                         completed = True, created_at = 1000, updated_at = 1000\<rparr>,
                        \<lparr>id_todo = 3, title = ''Todo 3'', description = Some ''Third todo'',
                         completed = False, created_at = 1000, updated_at = 1000\<rparr>], id_seq = 4\<rparr>)"
    by simp
  from deleteTodo_existing_id_removes_only_that_row
         [of "\<lparr>id_del = 2\<rparr>" "\<lparr>todosTable = [\<lparr>id_todo = 1, title = ''Todo 1'', description = Some ''First todo'',
                         completed = False, created_at = 1000, updated_at = 1000\<rparr>,
                        \<lparr>id_todo = 2, title = ''Todo 2'', description = Some ''Second todo'',
                         completed = True, created_at = 1000, updated_at = 1000\<rparr>,
                        \<lparr>id_todo = 3, title = ''Todo 3'', description = Some ''Third todo'',
                         completed = False, created_at = 1000, updated_at = 1000\<rparr>], id_seq = 4\<rparr>"] present
  obtain s' where
    run: "deleteTodo \<lparr>todosTable = [\<lparr>id_todo = 1, title = ''Todo 1'', description = Some ''First todo'',
                         completed = False, created_at = 1000, updated_at = 1000\<rparr>,
                        \<lparr>id_todo = 2, title = ''Todo 2'', description = Some ''Second todo'',
                         completed = True, created_at = 1000, updated_at = 1000\<rparr>,
                        \<lparr>id_todo = 3, title = ''Todo 3'', description = Some ''Third todo'',
                         completed = False, created_at = 1000, updated_at = 1000\<rparr>], id_seq = 4\<rparr> \<lparr>id_del = 2\<rparr> =
            (Inr \<lparr>success = True\<rparr>, s')" and
    rows: "todosTable s' = [\<lparr>id_todo = 1, title = ''Todo 1'', description = Some ''First todo'',
                         completed = False, created_at = 1000, updated_at = 1000\<rparr>,
                        \<lparr>id_todo = 3, title = ''Todo 3'', description = Some ''Third todo'',
                         completed = False, created_at = 1000, updated_at = 1000\<rparr>]" and
    seq: "id_seq s' = 4"
    by auto
  from rows seq have "s' = \<lparr>todosTable = [\<lparr>id_todo = 1, title = ''Todo 1'', description = Some ''First todo'',
                         completed = False, created_at = 1000, updated_at = 1000\<rparr>,
                        \<lparr>id_todo = 3, title = ''Todo 3'', description = Some ''Third todo'',
                         completed = False, created_at = 1000, updated_at = 1000\<rparr>], id_seq = 4\<rparr>"
    by (cases s') simp
  with run present show ?thesis
    by (simp add: getTodos_def db_select_def)
qed

text \<open>
  C9. A call of \<open>deleteTodo\<close> that returns a result returns \<open>{ success: true }\<close>; no call
  returns \<open>{ success: false }\<close>. A failure is an error, never a result.
\<close>

theorem deleteTodo_result_is_success_true:
  assumes "deleteTodo s input = (Inr res, s')"
  shows "res = \<lparr>success = True\<rparr> \<and> fst (deleteTodo s input) \<noteq> Inr \<lparr>success = False\<rparr>"
  using assms
  by (auto simp: deleteTodo_def db_delete_returning_def split: if_splits)

theorem deleteTodo_result_is_success_true_witness:
  "\<exists>res s'. deleteTodo \<lparr>todosTable = [\<lparr>id_todo = 1, title = ''Test Todo'',
                         description = Some ''A todo for testing deletion'',
                         completed = False, created_at = 1000, updated_at = 1000\<rparr>], id_seq = 2\<rparr> \<lparr>id_del = 1\<rparr> = (Inr res, s') \<and>
     res = \<lparr>success = True\<rparr>"
proof -
  have run: "deleteTodo \<lparr>todosTable = [\<lparr>id_todo = 1, title = ''Test Todo'',
                         description = Some ''A todo for testing deletion'',
                         completed = False, created_at = 1000, updated_at = 1000\<rparr>], id_seq = 2\<rparr> \<lparr>id_del = 1\<rparr> =
               (Inr \<lparr>success = True\<rparr>, \<lparr>todosTable = [], id_seq = 2\<rparr>)"
    by (simp add: deleteTodo_def db_delete_returning_def id_in_range_def)
  from deleteTodo_result_is_success_true [OF run] run show ?thesis
    by blast
qed

section \<open>Creating\<close>

text \<open>
  C6. For a create input with a non-empty title, \<open>createTodo\<close> returns a record that is
  not completed, whose id is the one the store's sequence generated, whose title and
  description are those of the input, and whose \<open>created_at\<close> and \<open>updated_at\<close> are both
  the operation's current time, hence equal. The record returned is the one stored.
\<close>

theorem createTodo_returns_new_record:
  assumes "title_new input \<noteq> []"
  shows "\<exists>r s'. createTodo s now input = (Inr r, s') \<and>
           completed r = False \<and>
           id_todo r = id_seq s \<and>
           title r = title_new input \<and>
           description r = description_new input \<and>
           created_at r = now \<and> updated_at r = now \<and>
           created_at r = updated_at r \<and>
           todosTable s' = todosTable s @ [r]"
  by (simp add: createTodo_def Let_def)

theorem createTodo_returns_new_record_witness:
  "title_new \<lparr>title_new = ''Test Todo'', description_new = Some ''A todo for testing''\<rparr> \<noteq> [] \<and>
   (\<exists>r s'. createTodo \<lparr>todosTable = [], id_seq = 1\<rparr> 1000
               \<lparr>title_new = ''Test Todo'', description_new = Some ''A todo for testing''\<rparr> =
             (Inr r, s') \<and>
           completed r = False \<and> id_todo r = 1 \<and> title r = ''Test Todo'' \<and>
           description r = Some ''A todo for testing'' \<and>
           created_at r = 1000 \<and> updated_at r = 1000 \<and> todosTable s' = [r])"
proof -
  have valid: "title_new \<lparr>title_new = ''Test Todo'',
                          description_new = Some ''A todo for testing''\<rparr> \<noteq> []"
    by simp
  from createTodo_returns_new_record
         [OF valid, of "\<lparr>todosTable = [], id_seq = 1\<rparr>" 1000]
  have "\<exists>r s'. createTodo \<lparr>todosTable = [], id_seq = 1\<rparr> 1000
               \<lparr>title_new = ''Test Todo'', description_new = Some ''A todo for testing''\<rparr> =
             (Inr r, s') \<and>
           completed r = False \<and> id_todo r = 1 \<and> title r = ''Test Todo'' \<and>
           description r = Some ''A todo for testing'' \<and>
           created_at r = 1000 \<and> updated_at r = 1000 \<and> todosTable s' = [r]"
    by simp blast
  with valid show ?thesis
    by (rule conjI)
qed

section \<open>Updating\<close>

text \<open>
  C10. For every input, store and clock, \<open>updateTodo\<close> returns a record, and the id of
  that record is the id of the input.
\<close>

theorem updateTodo_returns_input_id:
  "\<exists>r. updateTodo s t1 t2 input = (Inr r, s) \<and> id_todo r = id_upd input"
  by (simp add: updateTodo_def)


text \<open>
  C1. The stored record 1 has the description \<open>Original description\<close>, and the update
  sends a new title only. The claim asks for the stored description in the result; the
  record \<open>updateTodo\<close> returns has the description \<open>null\<close>, and the stored row keeps its
  old title.
\<close>

theorem updateTodo_omitted_description_not_kept:
  "updateTodo
      \<lparr>todosTable = [\<lparr>id_todo = 1, title = ''Original Title'', description = Some ''Original description'',
                      completed = False, created_at = 1000, updated_at = 1000\<rparr>],
       id_seq = 2\<rparr>
      2000 2000
      \<lparr>id_upd = 1, title_upd = Defined ''Updated Title'',
       description_upd = Undefined, completed_upd = Undefined\<rparr> =
     (Inr \<lparr>id_todo = 1, title = ''Updated Title'', description = None,
           completed = False, created_at = 2000, updated_at = 2000\<rparr>,
      \<lparr>todosTable = [\<lparr>id_todo = 1, title = ''Original Title'', description = Some ''Original description'',
                      completed = False, created_at = 1000, updated_at = 1000\<rparr>],
       id_seq = 2\<rparr>)"
  by (simp add: updateTodo_def)

text \<open>
  C2. The store is empty and the update names the id 999. The claim asks for a
  \<open>NotFound\<close> failure; \<open>updateTodo\<close> returns a record with the id 999, made from the
  input. The store stays empty.
\<close>

theorem updateTodo_unknown_id_returns_record:
  "updateTodo \<lparr>todosTable = [], id_seq = 1\<rparr> 2000 2000
      \<lparr>id_upd = 999, title_upd = Defined ''Updated Title'',
       description_upd = Undefined, completed_upd = Undefined\<rparr> =
     (Inr \<lparr>id_todo = 999, title = ''Updated Title'', description = None,
           completed = False, created_at = 2000, updated_at = 2000\<rparr>,
      \<lparr>todosTable = [], id_seq = 1\<rparr>) \<and>
   fst (updateTodo \<lparr>todosTable = [], id_seq = 1\<rparr> 2000 2000
      \<lparr>id_upd = 999, title_upd = Defined ''Updated Title'',
       description_upd = Undefined, completed_upd = Undefined\<rparr>) \<noteq> Inl (NotFound 999)"
  by (simp add: updateTodo_def)

text \<open>
  C4. The stored record 1 has the description \<open>Original description\<close>. An update that
  omits \<open>description\<close> and an update that sends \<open>description: null\<close> return the same
  record, with the description \<open>null\<close>: the claim asks for the stored description in the
  first case, and for two different results.
\<close>

theorem updateTodo_omitted_description_same_as_null:
  "updateTodo
      \<lparr>todosTable = [\<lparr>id_todo = 1, title = ''Test Title'', description = Some ''Original description'',
                      completed = False, created_at = 1000, updated_at = 1000\<rparr>],
       id_seq = 2\<rparr>
      2000 2000
      \<lparr>id_upd = 1, title_upd = Undefined,
       description_upd = Undefined, completed_upd = Undefined\<rparr> =
   updateTodo
      \<lparr>todosTable = [\<lparr>id_todo = 1, title = ''Test Title'', description = Some ''Original description'',
                      completed = False, created_at = 1000, updated_at = 1000\<rparr>],
       id_seq = 2\<rparr>
      2000 2000
      \<lparr>id_upd = 1, title_upd = Undefined,
       description_upd = Defined None, completed_upd = Undefined\<rparr> \<and>
   fst (updateTodo
      \<lparr>todosTable = [\<lparr>id_todo = 1, title = ''Test Title'', description = Some ''Original description'',
                      completed = False, created_at = 1000, updated_at = 1000\<rparr>],
       id_seq = 2\<rparr>
      2000 2000
      \<lparr>id_upd = 1, title_upd = Undefined,
       description_upd = Undefined, completed_upd = Undefined\<rparr>) =
     Inr \<lparr>id_todo = 1, title = ''Placeholder title'', description = None,
          completed = False, created_at = 2000, updated_at = 2000\<rparr>"
  by (simp add: updateTodo_def)

text \<open>
  C5. The stored record 1 was created at time 1000, and the update runs at time 2000
  with no field but the id. The claim asks for \<open>created_at = 1000\<close> in the result; the
  record \<open>updateTodo\<close> returns has \<open>created_at = 2000\<close>, the time of the call.
\<close>

theorem updateTodo_created_at_not_kept:
  "\<exists>r. fst (updateTodo
      \<lparr>todosTable = [\<lparr>id_todo = 1, title = ''Test Title'', description = Some ''Test description'',
                      completed = False, created_at = 1000, updated_at = 1000\<rparr>],
       id_seq = 2\<rparr>
      2000 2000
      \<lparr>id_upd = 1, title_upd = Undefined,
       description_upd = Undefined, completed_upd = Undefined\<rparr>) = Inr r \<and>
     created_at r = 2000 \<and> updated_at r = 2000 \<and>
     created_at r \<noteq> created_at (hd (todosTable
      \<lparr>todosTable = [\<lparr>id_todo = 1, title = ''Test Title'', description = Some ''Test description'',
                      completed = False, created_at = 1000, updated_at = 1000\<rparr>],
       id_seq = 2\<rparr>))"
  by (simp add: updateTodo_def)


end
